theory Spec2Isabelle
  imports Main "HOL-Library.Sublist" "HOL-Library.AList"
begin

section \<open>Strings\<close>

text \<open>
  A JavaScript string is modelled as a \<^typ>\<open>string\<close>, one \<^typ>\<open>char\<close> per code unit; the
  model covers the code units below 256 (Latin-1).  \<open>String.prototype.includes\<close> is the
  search for a contiguous occurrence.
\<close>

fun str_includes :: "string \<Rightarrow> string \<Rightarrow> bool" where
  "str_includes [] w = (w = [])"
| "str_includes (c # cs) w = (prefix w (c # cs) \<or> str_includes cs w)"

text \<open>White space as \<open>String.prototype.trim\<close> sees it, among the code units below 256:
  TAB, LF, VT, FF, CR, SPACE and NBSP.\<close>

definition is_white_space :: "char \<Rightarrow> bool" where
  "is_white_space c = (c \<in> set [CHR 0x09, CHR 0x0A, CHR 0x0B, CHR 0x0C, CHR 0x0D, CHR 0x20, CHR 0xA0])"

definition trim :: "string \<Rightarrow> string" where
  "trim s = rev (dropWhile is_white_space (rev (dropWhile is_white_space s)))"

text \<open>\<open>label.split('||')\<close>: the scan from the left for non-overlapping occurrences of the
  separator; the result always has at least one segment.\<close>

fun split_bars :: "string \<Rightarrow> string list" where
  "split_bars [] = [[]]"
| "split_bars [c] = [[c]]"
| "split_bars (c # d # cs) =
     (if c = CHR ''|'' \<and> d = CHR ''|'' then [] # split_bars cs
      else (case split_bars (d # cs) of
              [] \<Rightarrow> [[c]]
            | seg # segs \<Rightarrow> (c # seg) # segs))"

text \<open>Indexing an array: \<open>undefined\<close> (here \<open>None\<close>) out of range.\<close>

definition at_index :: "'a list \<Rightarrow> nat \<Rightarrow> 'a option" where
  "at_index xs i = (if i < length xs then Some (xs ! i) else None)"

text \<open>Truthiness of a value that is a string or \<open>undefined\<close>.\<close>

fun truthy :: "string option \<Rightarrow> bool" where
  "truthy None = False"
| "truthy (Some s) = (s \<noteq> [])"


section \<open>The rendering surface\<close>

text \<open>
  An event carries its type and, once \<open>chapterEvent.data\<close> is assigned, a payload object
  (property names with their values).  A listener of the widget is a closure whose body is
  \<open>window.dispatchEvent(chapterEvent)\<close>; the window is modelled by the sequence of events
  dispatched on it so far.
\<close>

record event =
  ev_type :: string
  ev_data :: "(string \<times> string) list option"

datatype listener = DispatchOnWindow event

type_synonym window = "event list"

text \<open>
  An element has a tag, its class list, its other attributes in order, its registered listeners
  (event type and closure), its own text and its child elements.  The widget only builds spans
  that hold text and rows that hold spans, so text is kept as one field, serialised before the
  children.
\<close>

datatype element =
  Element (tagName: string) (classList: "string list") (attributes: "(string \<times> string) list")
    (listeners: "(string \<times> listener) list") (ownText: string) (children: "element list")

type_synonym props = "(string \<times> string) list"
type_synonym attrs = "(string \<times> string) list"

text \<open>\<open>Object.assign(target, source)\<close> on plain objects: a property of the source overrides
  the target's in place, a new one is added at the end.\<close>

definition assign :: "('k \<times> 'v) list \<Rightarrow> ('k \<times> 'v) list \<Rightarrow> ('k \<times> 'v) list" where
  "assign target source = fold (\<lambda>(k, v). AList.update k v) source target"

text \<open>The class attribute's tokens: the runs of characters between ASCII white space.\<close>

definition is_ascii_space :: "char \<Rightarrow> bool" where
  "is_ascii_space c = (c \<in> set [CHR 0x09, CHR 0x0A, CHR 0x0C, CHR 0x0D, CHR 0x20])"

fun class_tokens_acc :: "string \<Rightarrow> string \<Rightarrow> string list" where
  "class_tokens_acc cur [] = (if cur = [] then [] else [cur])"
| "class_tokens_acc cur (c # cs) =
     (if is_ascii_space c then (if cur = [] then [] else [cur]) @ class_tokens_acc [] cs
      else class_tokens_acc (cur @ [c]) cs)"

definition class_tokens :: "string \<Rightarrow> string list" where
  "class_tokens s = class_tokens_acc [] s"

fun join_spaces :: "string list \<Rightarrow> string" where
  "join_spaces [] = []"
| "join_spaces [t] = t"
| "join_spaces (t # u # ts) = t @ '' '' @ join_spaces (u # ts)"

subsection \<open>Serialisation\<close>

definition escape_attr_char :: "char \<Rightarrow> string" where
  "escape_attr_char c =
     (if c = CHR ''&'' then ''&amp;'' else if c = CHR 0x22 then ''&quot;'' else [c])"

definition escape_text_char :: "char \<Rightarrow> string" where
  "escape_text_char c =
     (if c = CHR ''&'' then ''&amp;'' else if c = CHR ''<'' then ''&lt;''
      else if c = CHR ''>'' then ''&gt;'' else [c])"

definition escape_attr :: "string \<Rightarrow> string" where
  "escape_attr s = concat (map escape_attr_char s)"

definition escape_text :: "string \<Rightarrow> string" where
  "escape_text s = concat (map escape_text_char s)"

definition attr_html :: "string \<times> string \<Rightarrow> string" where
  "attr_html kv = '' '' @ fst kv @ ''='' @ [CHR 0x22] @ escape_attr (snd kv) @ [CHR 0x22]"

definition class_html :: "string list \<Rightarrow> string" where
  "class_html cl = (if cl = [] then [] else attr_html (''class'', join_spaces cl))"

text \<open>\<open>el.outerHTML\<close>: the start tag with the class and the other attributes, the content,
  the end tag.  Listeners are not part of the markup.\<close>

fun outerHTML :: "element \<Rightarrow> string" where
  "outerHTML (Element tag cl as ls txt kids) =
     ''<'' @ tag @ class_html cl @ concat (map attr_html as) @ ''>''
       @ escape_text txt @ concat (map outerHTML kids)
       @ ''</'' @ tag @ ''>''"

subsection \<open>Element operations\<close>

definition getAttribute :: "string \<Rightarrow> element \<Rightarrow> string option" where
  "getAttribute name el = map_of (attributes el) name"

fun setAttribute :: "string \<Rightarrow> string \<Rightarrow> element \<Rightarrow> element" where
  "setAttribute name v (Element tag cl as ls txt kids) =
     Element tag cl (AList.update name v as) ls txt kids"

definition hasClass :: "string \<Rightarrow> element \<Rightarrow> bool" where
  "hasClass c el = (c \<in> set (classList el))"

text \<open>Modelled from the spec: the base control's "CSS class add/remove" capability
  (\<open>Component.addClass\<close>, \<open>Component.removeClass\<close>), whose code is not in the sources: adding
  a class that is present changes nothing, removing takes every occurrence away.\<close>

fun dom_addClass :: "string \<Rightarrow> element \<Rightarrow> element" where
  "dom_addClass c (Element tag cl as ls txt kids) =
     Element tag (if c \<in> set cl then cl else cl @ [c]) as ls txt kids"

fun dom_removeClass :: "string \<Rightarrow> element \<Rightarrow> element" where
  "dom_removeClass c (Element tag cl as ls txt kids) =
     Element tag (removeAll c cl) as ls txt kids"

fun addEventListener :: "string \<Rightarrow> listener \<Rightarrow> element \<Rightarrow> element" where
  "addEventListener ty l (Element tag cl as ls txt kids) =
     Element tag cl as (ls @ [(ty, l)]) txt kids"

fun prepend :: "element \<Rightarrow> element \<Rightarrow> element" where
  "prepend new (Element tag cl as ls txt kids) = Element tag cl as ls txt (new # kids)"

fun appendChild :: "element \<Rightarrow> element \<Rightarrow> element" where
  "appendChild new (Element tag cl as ls txt kids) = Element tag cl as ls txt (kids @ [new])"

text \<open>\<open>el.querySelector('.c')\<close>: the first descendant in document order whose class list has
  \<open>c\<close>, as the path of child indices that leads to it; \<open>None\<close> is \<open>null\<close>.\<close>

fun find_class :: "string \<Rightarrow> nat \<Rightarrow> element list \<Rightarrow> nat list option" where
  "find_class c i [] = None"
| "find_class c i (Element tag cl as ls txt kids # es) =
     (if c \<in> set cl then Some [i]
      else (case find_class c 0 kids of
              Some p \<Rightarrow> Some (i # p)
            | None \<Rightarrow> find_class c (Suc i) es))"

definition querySelector :: "string \<Rightarrow> element \<Rightarrow> nat list option" where
  "querySelector c el = find_class c 0 (children el)"

datatype error = TypeError | NotFoundError

text \<open>\<open>el.replaceChild(new, old)\<close>: a \<open>TypeError\<close> when \<open>old\<close> is \<open>null\<close>, a
  \<open>NotFoundError\<close> when \<open>old\<close> is not a child of \<open>el\<close> itself.\<close>

fun replaceChild :: "element \<Rightarrow> nat list option \<Rightarrow> element \<Rightarrow> error + element" where
  "replaceChild new None el = Inl TypeError"
| "replaceChild new (Some [i]) (Element tag cl as ls txt kids) =
     (if i < length kids then Inr (Element tag cl as ls txt (kids[i := new]))
      else Inl NotFoundError)"
| "replaceChild new (Some p) el = Inl NotFoundError"

text \<open>Firing an event of type \<open>ty\<close> at an element runs its listeners for that type in the order
  of registration; each runs to its end before the next starts.\<close>

fun run_listener :: "listener \<Rightarrow> window \<Rightarrow> window" where
  "run_listener (DispatchOnWindow e) w = w @ [e]"

definition fire :: "string \<Rightarrow> element \<Rightarrow> window \<Rightarrow> window" where
  "fire ty el w = fold run_listener (map snd (filter (\<lambda>tl. fst tl = ty) (listeners el))) w"

text \<open>Modelled from the spec: the "structural element-construction capability" (\<open>createEl\<close> of
  \<open>utils/dom.js\<close>, not in the sources), which builds an element from a tag, a property map and
  an attribute map: \<open>className\<close> gives the class list, \<open>textContent\<close> the text, every other
  property is reflected as an attribute, and the attribute map follows.\<close>

definition prop_attr_name :: "string \<Rightarrow> string" where
  "prop_attr_name k = (if k = ''tabIndex'' then ''tabindex'' else k)"

definition dom_createEl :: "string \<Rightarrow> props \<Rightarrow> attrs \<Rightarrow> element" where
  "dom_createEl tag ps as =
     Element tag
       (case map_of ps ''className'' of None \<Rightarrow> [] | Some c \<Rightarrow> class_tokens c)
       (assign
          (map (\<lambda>(k, v). (prop_attr_name k, v))
             (filter (\<lambda>(k, v). k \<noteq> ''className'' \<and> k \<noteq> ''textContent'') ps))
          as)
       []
       (case map_of ps ''textContent'' of None \<Rightarrow> [] | Some t \<Rightarrow> t)
       []"

text \<open>Modelled from the spec: the base control's element (\<open>ClickableComponent.createEl\<close>, not
  in the sources): the generic element for the tag, the properties and the attributes, holding
  the "generic icon placeholder" that the menu item swaps for its text.\<close>

definition clickable_createEl :: "string \<Rightarrow> props \<Rightarrow> attrs \<Rightarrow> element" where
  "clickable_createEl tag ps as =
     appendChild (dom_createEl ''span'' [(''className'', ''vjs-icon-placeholder'')] [])
       (dom_createEl tag ps as)"


section \<open>The menu item\<close>

text \<open>The state of a \<open>MenuItem\<close>.  The fields \<open>isSelected_\<close>, \<open>controlText_\<close> and \<open>el_\<close> of
  the source are \<open>isSelected_this\<close>, \<open>controlText_this\<close> and \<open>el_this\<close> here, since a name
  cannot end in an underscore.\<close>

record menu_item =
  selectable :: bool
  multiSelectable :: bool
  isSelected_this :: bool
  nonIconControl :: bool
  controlText_this :: string
  el_this :: element

text \<open>Modelled from the spec: the base control's "accessible-text setter"
  (\<open>ClickableComponent.controlText\<close>, not in the sources): it replaces the control text, which
  is kept in the component, apart from the markup of \<open>el_\<close>.\<close>

definition controlText :: "string \<Rightarrow> menu_item \<Rightarrow> menu_item" where
  "controlText t this = this\<lparr>controlText_this := t\<rparr>"

definition addClass :: "string \<Rightarrow> menu_item \<Rightarrow> menu_item" where
  "addClass c this = this\<lparr>el_this := dom_addClass c (el_this this)\<rparr>"

definition removeClass :: "string \<Rightarrow> menu_item \<Rightarrow> menu_item" where
  "removeClass c this = this\<lparr>el_this := dom_removeClass c (el_this this)\<rparr>"

definition el_setAttribute :: "string \<Rightarrow> string \<Rightarrow> menu_item \<Rightarrow> menu_item" where
  "el_setAttribute name v this = this\<lparr>el_this := setAttribute name v (el_this this)\<rparr>"

text \<open>\<open>MenuItem.selected\<close> (lines 151 to 168).\<close>

definition selected :: "bool \<Rightarrow> menu_item \<Rightarrow> menu_item" where
  "selected sel this =
     (if selectable this then
        (if sel \<and> \<not> str_includes (outerHTML (el_this this)) ''-chapter-'' then
           (let this = addClass ''vjs-selected'' this;
                this = el_setAttribute ''aria-checked'' ''true'' this;
                this = controlText '', selected'' this
            in this\<lparr>isSelected_this := True\<rparr>)
         else
           (let this = removeClass ''vjs-selected'' this;
                this = el_setAttribute ''aria-checked'' ''false'' this;
                this = controlText '''' this
            in this\<lparr>isSelected_this := False\<rparr>))
      else this)"

text \<open>\<open>MenuItem.handleClick\<close> (lines 141 to 143).\<close>

definition handleClick :: "'e \<Rightarrow> menu_item \<Rightarrow> menu_item" where
  "handleClick event this = selected True this"

text \<open>A sequence of \<open>selected\<close> calls, in order.\<close>

definition selected_calls :: "bool list \<Rightarrow> menu_item \<Rightarrow> menu_item" where
  "selected_calls bs this = fold selected bs this"

text \<open>\<open>MenuItem.createEl\<close> (lines 64 to 112).  \<open>super_createEl\<close> is the base control's
  \<open>createEl\<close> and \<open>localize\<close> the localization lookup, both outside the sources; \<open>label\<close>
  is \<open>this.options_.label\<close>, a string, so that the test \<open>chapterText === null\<close> of line 80 is
  always false.  The result is the element returned, or the exception that \<open>replaceChild\<close>
  throws; the assignment to \<open>this.nonIconControl\<close> (line 66) is recorded in the state that the
  constructor builds.\<close>

definition new_Event :: "string \<Rightarrow> event" where
  "new_Event ty = \<lparr>ev_type = ty, ev_data = None\<rparr>"

definition createEl ::
  "(string \<Rightarrow> props \<Rightarrow> attrs \<Rightarrow> element) \<Rightarrow> (string \<Rightarrow> string) \<Rightarrow> string
     \<Rightarrow> string \<Rightarrow> props \<Rightarrow> attrs \<Rightarrow> error + element" where
  "createEl super_createEl localize label tag_type ps as =
     (let el = super_createEl ''li''
                 (assign [(''className'', ''vjs-menu-item''), (''tabIndex'', ''-1'')] ps) as;
          chapterEditButtonEl =
            dom_createEl ''span'' [(''className'', ''vjs-menu-item-chapter-edit-button'')] [];
          chapterText = hd (split_bars label);
          chapterStartTime = at_index (split_bars label) 1;
          chapterEvent = new_Event ''chapterEditEvent'';
          isChapterNameEmpty = (trim chapterText = [])
      in if isChapterNameEmpty then
           (let emptyEl = super_createEl ''li'' [(''style'', ''display: none;'')] []
            in Inr emptyEl)
         else
           (let chapterEvent = chapterEvent\<lparr>ev_data := Some [(''chapter'', chapterText)]\<rparr>;
                chapterEditButtonEl =
                  addEventListener ''click'' (DispatchOnWindow chapterEvent) chapterEditButtonEl;
                chapterEditButtonEl =
                  addEventListener ''touchstart'' (DispatchOnWindow chapterEvent)
                    chapterEditButtonEl;
                el = prepend chapterEditButtonEl el
            in case replaceChild
                      (dom_createEl ''span''
                         [(''className'', ''vjs-menu-item-text''),
                          (''textContent'', localize chapterText)] [])
                      (querySelector ''vjs-icon-placeholder'' el) el of
                 Inl e \<Rightarrow> Inl e
               | Inr el \<Rightarrow>
                   Inr (if truthy chapterStartTime then
                          appendChild
                            (dom_createEl ''span''
                               [(''className'', ''vjs-menu-item-chapter-starttime''),
                                (''textContent'', localize (the chapterStartTime))] [])
                            el
                        else el)))"

text \<open>The constructor (lines 29 to 47).  The base constructor, outside the sources, renders the
  element once through \<open>this.createEl()\<close>, called without arguments; the control text starts
  empty.\<close>

record options =
  opt_label :: string
  opt_selectable :: bool
  opt_multiSelectable :: bool
  opt_selected :: bool

definition MenuItem ::
  "(string \<Rightarrow> props \<Rightarrow> attrs \<Rightarrow> element) \<Rightarrow> (string \<Rightarrow> string) \<Rightarrow> options
     \<Rightarrow> error + menu_item" where
  "MenuItem super_createEl localize opts =
     (case createEl super_createEl localize (opt_label opts) ''li'' [] [] of
        Inl e \<Rightarrow> Inl e
      | Inr el \<Rightarrow>
          (let this = \<lparr>selectable = opt_selectable opts,
                       multiSelectable = opt_multiSelectable opts,
                       isSelected_this = (opt_selected opts \<or> False),
                       nonIconControl = True,
                       controlText_this = [],
                       el_this = el\<rparr>;
               this = selected (isSelected_this this) this;
               this =
                 (if selectable this then
                    (if multiSelectable this then el_setAttribute ''role'' ''menuitemcheckbox'' this
                     else el_setAttribute ''role'' ''menuitemradio'' this)
                  else el_setAttribute ''role'' ''menuitem'' this)
           in Inr this))"

text \<open>\<open>MenuItem.handleKeyDown\<close> (lines 123 to 128).  The menu's key list, the key test of the
  \<open>keycode\<close> package and the base control's handler are outside the sources and are
  parameters; the base handler acts on the state it is given.\<close>

definition handleKeyDown ::
  "'k list \<Rightarrow> ('e \<Rightarrow> 'k \<Rightarrow> bool) \<Rightarrow> ('e \<Rightarrow> 's \<Rightarrow> 's) \<Rightarrow> 'e \<Rightarrow> 's \<Rightarrow> 's" where
  "handleKeyDown MenuKeys isEventKey super_handleKeyDown event this =
     (if \<not> list_ex (\<lambda>key. isEventKey event key) MenuKeys then super_handleKeyDown event this
      else this)"


section \<open>The specification's vocabulary\<close>

text \<open>The two parts of a label in the specification's words: the text before the first
  \<open>||\<close>, and everything after the first \<open>||\<close> when there is one.\<close>

fun text_before_first_bars :: "string \<Rightarrow> string" where
  "text_before_first_bars [] = []"
| "text_before_first_bars [c] = [c]"
| "text_before_first_bars (c # d # cs) =
     (if c = CHR ''|'' \<and> d = CHR ''|'' then [] else c # text_before_first_bars (d # cs))"

fun text_after_first_bars :: "string \<Rightarrow> string option" where
  "text_after_first_bars [] = None"
| "text_after_first_bars [c] = None"
| "text_after_first_bars (c # d # cs) =
     (if c = CHR ''|'' \<and> d = CHR ''|'' then Some cs else text_after_first_bars (d # cs))"

text \<open>The rendered markup "contains the chapter-marker class": the element or one of its
  descendants carries a class with \<open>-chapter-\<close> in its name.\<close>

fun has_chapter_marker_class :: "element \<Rightarrow> bool" where
  "has_chapter_marker_class (Element tag cl as ls txt kids) =
     ((\<exists>c \<in> set cl. str_includes c ''-chapter-'') \<or>
      (\<exists>k \<in> set kids. has_chapter_marker_class k))"

text \<open>The role that the constructor's nested test (lines 38 to 46) selects.\<close>

definition role_for :: "bool \<Rightarrow> bool \<Rightarrow> string" where
  "role_for sel multi =
     (if sel then (if multi then ''menuitemcheckbox'' else ''menuitemradio'') else ''menuitem'')"


section \<open>Example items\<close>

text \<open>Two lookup tables with one entry each, as localizations.\<close>

definition german :: "string \<Rightarrow> string" where
  "german s = (if s = ''Intro'' then ''Einleitung'' else s)"

definition spoken_time :: "string \<Rightarrow> string" where
  "spoken_time s = (if s = ''00:00:10'' then ''ten seconds'' else s)"

definition intro_options :: "bool \<Rightarrow> bool \<Rightarrow> bool \<Rightarrow> options" where
  "intro_options sel multi chosen =
     \<lparr>opt_label = ''Intro||00:00:10'', opt_selectable = sel, opt_multiSelectable = multi,
      opt_selected = chosen\<rparr>"

definition placeholder_options :: "bool \<Rightarrow> bool \<Rightarrow> bool \<Rightarrow> options" where
  "placeholder_options sel multi chosen =
     \<lparr>opt_label = ''  ||00:00:10'', opt_selectable = sel, opt_multiSelectable = multi,
      opt_selected = chosen\<rparr>"

definition edit_button_intro :: element where
  "edit_button_intro =
     Element ''span'' [''vjs-menu-item-chapter-edit-button''] []
       [(''click'', DispatchOnWindow
           \<lparr>ev_type = ''chapterEditEvent'', ev_data = Some [(''chapter'', ''Intro'')]\<rparr>),
        (''touchstart'', DispatchOnWindow
           \<lparr>ev_type = ''chapterEditEvent'', ev_data = Some [(''chapter'', ''Intro'')]\<rparr>)]
       [] []"

definition intro_row :: "(string \<times> string) list \<Rightarrow> element" where
  "intro_row extra =
     Element ''li'' [''vjs-menu-item''] ((''tabindex'', ''-1'') # extra) [] []
       [edit_button_intro,
        Element ''span'' [''vjs-menu-item-text''] [] [] ''Einleitung'' [],
        Element ''span'' [''vjs-menu-item-chapter-starttime''] [] [] ''00:00:10'' []]"

definition hidden_row :: "string list \<Rightarrow> (string \<times> string) list \<Rightarrow> element" where
  "hidden_row cl extra =
     Element ''li'' cl ((''style'', ''display: none;'') # extra) [] []
       [Element ''span'' [''vjs-icon-placeholder''] [] [] [] []]"

definition item_state :: "bool \<Rightarrow> bool \<Rightarrow> bool \<Rightarrow> string \<Rightarrow> element \<Rightarrow> menu_item" where
  "item_state sel multi chosen ct el =
     \<lparr>selectable = sel, multiSelectable = multi, isSelected_this = chosen,
      nonIconControl = True, controlText_this = ct, el_this = el\<rparr>"


section \<open>Facts about the model\<close>

lemma str_includes_sublist: "str_includes s w = sublist w s"
  by (induction s) (simp_all add: sublist_Cons_right)

lemma sublist_appendI1: "sublist w ys \<Longrightarrow> sublist w (ys @ zs)"
  by (metis append.assoc sublist_def)

lemma sublist_appendI2: "sublist w zs \<Longrightarrow> sublist w (ys @ zs)"
  by (metis append.assoc sublist_def)

lemma sublist_mid: "sublist w x \<Longrightarrow> sublist w (a @ x @ b)"
  by (intro sublist_appendI1 sublist_appendI2)

lemma sublist_concat: "x \<in> set xs \<Longrightarrow> sublist w x \<Longrightarrow> sublist w (concat xs)"
  by (induction xs) (auto intro: sublist_appendI1 sublist_appendI2)

lemma sublist_join_spaces: "c \<in> set cl \<Longrightarrow> sublist w c \<Longrightarrow> sublist w (join_spaces cl)"
  by (induction cl rule: join_spaces.induct)
    (auto simp: sublist_Cons_right intro: sublist_appendI1 sublist_appendI2)

lemma escape_attr_append: "escape_attr (xs @ ys) = escape_attr xs @ escape_attr ys"
  by (simp add: escape_attr_def)

lemma escape_attr_marker: "escape_attr ''-chapter-'' = ''-chapter-''"
  by (simp add: escape_attr_def escape_attr_char_def)

lemma sublist_escape_attr:
  assumes "sublist ''-chapter-'' s"
  shows "sublist ''-chapter-'' (escape_attr s)"
proof -
  from assms obtain p q where "s = p @ ''-chapter-'' @ q"
    by (auto simp: sublist_def)
  then have "escape_attr s = escape_attr p @ ''-chapter-'' @ escape_attr q"
    by (simp only: escape_attr_append escape_attr_marker)
  then show ?thesis
    by (simp only: sublist_appendI)
qed

lemma sublist_class_html:
  assumes "c \<in> set cl" and "sublist ''-chapter-'' c"
  shows "sublist ''-chapter-'' (class_html cl)"
proof -
  have "cl \<noteq> []" using assms(1) by auto
  moreover have "sublist ''-chapter-'' (escape_attr (join_spaces cl))"
    using assms by (intro sublist_escape_attr sublist_join_spaces)
  moreover have "class_html cl =
      ('' class='' @ [CHR 0x22]) @ escape_attr (join_spaces cl) @ [CHR 0x22]"
    using \<open>cl \<noteq> []\<close> by (simp add: class_html_def attr_html_def)
  ultimately show ?thesis
    by (simp only: sublist_mid)
qed

lemma marker_class_in_markup:
  "has_chapter_marker_class el \<Longrightarrow> str_includes (outerHTML el) ''-chapter-''"
proof (induction el)
  case (Element tag cl ats ls tx kids)
  from Element.prems consider
      (own) c where "c \<in> set cl" "sublist ''-chapter-'' c"
    | (kid) k where "k \<in> set kids" "has_chapter_marker_class k"
    by (auto simp: str_includes_sublist)
  then show ?case
  proof cases
    case own
    then have "sublist ''-chapter-'' (class_html cl)"
      by (rule sublist_class_html)
    then have "sublist ''-chapter-'' (''<'' @ tag @ class_html cl @ (concat (map attr_html ats) @ ''>''
       @ escape_text tx @ concat (map outerHTML kids) @ ''</'' @ tag @ ''>''))"
      by (intro sublist_appendI2 sublist_appendI1)
    then show ?thesis
      by (simp add: str_includes_sublist)
  next
    case kid
    then have "sublist ''-chapter-'' (outerHTML k)"
      using Element.IH by (simp add: str_includes_sublist)
    then have "sublist ''-chapter-'' (concat (map outerHTML kids))"
      using kid(1) by (intro sublist_concat[of "outerHTML k"]) auto
    then have "sublist ''-chapter-'' (''<'' @ tag @ class_html cl @ concat (map attr_html ats) @ ''>''
       @ escape_text tx @ (concat (map outerHTML kids) @ ''</'' @ tag @ ''>''))"
      by (intro sublist_appendI2 sublist_appendI1)
    then show ?thesis
      by (simp add: str_includes_sublist)
  qed
qed


lemma not_marker_vjs_selected: "\<not> str_includes ''vjs-selected'' ''-chapter-''"
  by simp

lemma marker_dom_addClass [simp]:
  "has_chapter_marker_class (dom_addClass c el) =
     (has_chapter_marker_class el \<or> str_includes c ''-chapter-'')"
  by (cases el) auto

lemma marker_dom_removeClass [simp]:
  "\<not> str_includes c ''-chapter-'' \<Longrightarrow>
     has_chapter_marker_class (dom_removeClass c el) = has_chapter_marker_class el"
  by (cases el) auto

lemma marker_setAttribute [simp]:
  "has_chapter_marker_class (setAttribute name v el) = has_chapter_marker_class el"
  by (cases el) auto

lemma hasClass_dom_addClass [simp]: "hasClass c (dom_addClass c' el) = (c = c' \<or> hasClass c el)"
  by (cases el) (auto simp: hasClass_def)

lemma hasClass_dom_removeClass [simp]:
  "hasClass c (dom_removeClass c' el) = (c \<noteq> c' \<and> hasClass c el)"
  by (cases el) (auto simp: hasClass_def)

lemma hasClass_setAttribute [simp]: "hasClass c (setAttribute name v el) = hasClass c el"
  by (cases el) (auto simp: hasClass_def)

lemma getAttribute_setAttribute [simp]:
  "getAttribute name (setAttribute name' v el) =
     (if name = name' then Some v else getAttribute name el)"
  by (cases el) (auto simp: getAttribute_def update_conv')

lemma getAttribute_dom_addClass [simp]:
  "getAttribute name (dom_addClass c el) = getAttribute name el"
  by (cases el) (auto simp: getAttribute_def)

lemma getAttribute_dom_removeClass [simp]:
  "getAttribute name (dom_removeClass c el) = getAttribute name el"
  by (cases el) (auto simp: getAttribute_def)

lemmas component_defs = addClass_def removeClass_def el_setAttribute_def controlText_def

lemma selected_not_selectable: "\<not> selectable this \<Longrightarrow> selected sel this = this"
  by (simp add: selected_def)

lemma selectable_selected [simp]: "selectable (selected sel this) = selectable this"
  by (simp add: selected_def component_defs Let_def)

lemma multiSelectable_selected [simp]:
  "multiSelectable (selected sel this) = multiSelectable this"
  by (simp add: selected_def component_defs Let_def)

lemma selected_select_branch:
  assumes "selectable this" and "sel" and "\<not> str_includes (outerHTML (el_this this)) ''-chapter-''"
  shows "selected sel this =
     this\<lparr>el_this := setAttribute ''aria-checked'' ''true'' (dom_addClass ''vjs-selected'' (el_this this)),
          controlText_this := '', selected'', isSelected_this := True\<rparr>"
  using assms by (simp add: selected_def component_defs Let_def)

lemma selected_deselect_branch:
  assumes "selectable this" and "\<not> sel \<or> str_includes (outerHTML (el_this this)) ''-chapter-''"
  shows "selected sel this =
     this\<lparr>el_this := setAttribute ''aria-checked'' ''false'' (dom_removeClass ''vjs-selected'' (el_this this)),
          controlText_this := [], isSelected_this := False\<rparr>"
  using assms by (auto simp add: selected_def component_defs Let_def)

lemma selected_calls_Nil [simp]: "selected_calls [] this = this"
  by (simp add: selected_calls_def)

lemma selected_calls_Cons [simp]:
  "selected_calls (b # bs) this = selected_calls bs (selected b this)"
  by (simp add: selected_calls_def)

lemma selected_calls_not_selectable:
  "\<not> selectable this \<Longrightarrow> selected_calls bs this = this"
  by (induction bs) (simp_all add: selected_not_selectable)

lemma marker_selected:
  assumes "has_chapter_marker_class (el_this this)"
  shows "has_chapter_marker_class (el_this (selected sel this))"
proof (cases "selectable this")
  case True
  then have "selected sel this =
     this\<lparr>el_this := setAttribute ''aria-checked'' ''false'' (dom_removeClass ''vjs-selected'' (el_this this)),
          controlText_this := [], isSelected_this := False\<rparr>"
    using assms by (intro selected_deselect_branch) (simp_all add: marker_class_in_markup)
  then show ?thesis
    using assms by (simp add: not_marker_vjs_selected)
next
  case False
  then show ?thesis
    using assms by (simp add: selected_not_selectable)
qed

lemma marker_selected_calls:
  "has_chapter_marker_class (el_this this) \<Longrightarrow>
     has_chapter_marker_class (el_this (selected_calls bs this))"
  by (induction bs arbitrary: this) (simp_all add: marker_selected)

lemma selected_idem_deselect:
  "setAttribute ''aria-checked'' ''false'' (dom_removeClass ''vjs-selected''
     (setAttribute ''aria-checked'' ''false'' (dom_removeClass ''vjs-selected'' el))) =
   setAttribute ''aria-checked'' ''false'' (dom_removeClass ''vjs-selected'' el)"
  by (cases el) (simp add: update_conv' AList.update_last)

lemma marker_selected_calls_state:
  assumes "has_chapter_marker_class (el_this this)" and "selectable this" and "bs \<noteq> []"
  shows "selected_calls bs this =
     this\<lparr>el_this := setAttribute ''aria-checked'' ''false'' (dom_removeClass ''vjs-selected'' (el_this this)),
          controlText_this := [], isSelected_this := False\<rparr>"
  using assms
proof (induction bs arbitrary: this)
  case Nil
  then show ?case by simp
next
  case (Cons b bs)
  let ?d = "this\<lparr>el_this := setAttribute ''aria-checked'' ''false'' (dom_removeClass ''vjs-selected'' (el_this this)),
          controlText_this := [], isSelected_this := False\<rparr>"
  have step: "selected b this = ?d"
    using Cons.prems by (intro selected_deselect_branch) (simp_all add: marker_class_in_markup)
  show ?case
  proof (cases "bs = []")
    case True
    then show ?thesis using step by simp
  next
    case False
    have "has_chapter_marker_class (el_this ?d)" and "selectable ?d"
      using Cons.prems by (simp_all add: not_marker_vjs_selected)
    then have "selected_calls bs ?d =
       ?d\<lparr>el_this := setAttribute ''aria-checked'' ''false'' (dom_removeClass ''vjs-selected'' (el_this ?d)),
          controlText_this := [], isSelected_this := False\<rparr>"
      using False by (rule Cons.IH)
    then show ?thesis
      using step by (simp add: selected_idem_deselect)
  qed
qed

lemma class_tokens_edit_button:
  "class_tokens ''vjs-menu-item-chapter-edit-button'' = [''vjs-menu-item-chapter-edit-button'']"
  by (simp add: class_tokens_def is_ascii_space_def)

lemma class_tokens_text: "class_tokens ''vjs-menu-item-text'' = [''vjs-menu-item-text'']"
  by (simp add: class_tokens_def is_ascii_space_def)

lemma class_tokens_starttime:
  "class_tokens ''vjs-menu-item-chapter-starttime'' = [''vjs-menu-item-chapter-starttime'']"
  by (simp add: class_tokens_def is_ascii_space_def)

lemma class_tokens_placeholder:
  "class_tokens ''vjs-icon-placeholder'' = [''vjs-icon-placeholder'']"
  by (simp add: class_tokens_def is_ascii_space_def)

lemma class_tokens_menu_item: "class_tokens ''vjs-menu-item'' = [''vjs-menu-item'']"
  by (simp add: class_tokens_def is_ascii_space_def)

lemma dom_createEl_edit_button:
  "dom_createEl ''span'' [(''className'', ''vjs-menu-item-chapter-edit-button'')] [] =
     Element ''span'' [''vjs-menu-item-chapter-edit-button''] [] [] [] []"
  by (simp add: dom_createEl_def class_tokens_edit_button assign_def)

lemma dom_createEl_text_span:
  "dom_createEl ''span'' [(''className'', ''vjs-menu-item-text''), (''textContent'', t)] [] =
     Element ''span'' [''vjs-menu-item-text''] [] [] t []"
  by (simp add: dom_createEl_def class_tokens_text assign_def)

lemma dom_createEl_starttime_span:
  "dom_createEl ''span''
     [(''className'', ''vjs-menu-item-chapter-starttime''), (''textContent'', t)] [] =
     Element ''span'' [''vjs-menu-item-chapter-starttime''] [] [] t []"
  by (simp add: dom_createEl_def class_tokens_starttime assign_def)

lemma find_class_shift:
  "find_class c (Suc j) es = map_option (\<lambda>p. Suc (hd p) # tl p) (find_class c j es)"
  by (induction c j es rule: find_class.induct) (auto split: option.splits)

lemma find_class_not_Nil: "find_class c j es \<noteq> Some []"
  by (induction c j es rule: find_class.induct) (auto split: option.splits)

lemma find_class_child_bounds: "find_class c j es = Some [i] \<Longrightarrow> j \<le> i \<and> i < j + length es"
  by (induction c j es arbitrary: i rule: find_class.induct)
    (auto split: option.splits if_splits simp: find_class_not_Nil)

text \<open>What \<open>createEl\<close> does after the test of the name, in terms of the base element.\<close>

lemma createEl_blank:
  assumes "trim (hd (split_bars label)) = []"
  shows "createEl super_createEl localize label ty ps ats =
           Inr (super_createEl ''li'' [(''style'', ''display: none;'')] [])"
  using assms by (simp add: createEl_def Let_def)

lemma querySelector_prepend_edit_button:
  "querySelector ''vjs-icon-placeholder''
     (Element tag cl as' ls tx
        (Element ''span'' [''vjs-menu-item-chapter-edit-button''] [] ls0 [] [] # kids)) =
   map_option (\<lambda>p. Suc (hd p) # tl p) (find_class ''vjs-icon-placeholder'' 0 kids)"
  by (simp add: querySelector_def find_class_shift)

lemma createEl_row:
  assumes "trim (hd (split_bars label)) \<noteq> []"
    and "super_createEl ''li''
           (assign [(''className'', ''vjs-menu-item''), (''tabIndex'', ''-1'')] ps) ats =
         Element tag cl as' ls tx kids"
    and "find_class ''vjs-icon-placeholder'' 0 kids = Some [i]"
  shows "createEl super_createEl localize label ty ps ats =
     Inr (Element tag cl as' ls tx
       (Element ''span'' [''vjs-menu-item-chapter-edit-button''] []
          [(''click'', DispatchOnWindow
              \<lparr>ev_type = ''chapterEditEvent'',
               ev_data = Some [(''chapter'', hd (split_bars label))]\<rparr>),
           (''touchstart'', DispatchOnWindow
              \<lparr>ev_type = ''chapterEditEvent'',
               ev_data = Some [(''chapter'', hd (split_bars label))]\<rparr>)] [] []
        # kids[i := Element ''span'' [''vjs-menu-item-text''] [] []
                      (localize (hd (split_bars label))) []]
        @ (case at_index (split_bars label) 1 of
             None \<Rightarrow> []
           | Some t \<Rightarrow>
               if t = [] then []
               else [Element ''span'' [''vjs-menu-item-chapter-starttime''] [] [] (localize t) []])))"
proof -
  have "i < length kids"
    using find_class_child_bounds [OF assms(3)] by simp
  then show ?thesis
    using assms
    by (cases "at_index (split_bars label) 1")
      (simp_all add: createEl_def Let_def new_Event_def dom_createEl_edit_button
        dom_createEl_text_span dom_createEl_starttime_span querySelector_prepend_edit_button)
qed

lemma createEl_Inr_nonblank:
  assumes "trim (hd (split_bars label)) \<noteq> []"
    and "createEl super_createEl localize label ty ps ats = Inr el"
  shows "\<exists>rest. children el =
       Element ''span'' [''vjs-menu-item-chapter-edit-button''] []
          [(''click'', DispatchOnWindow
              \<lparr>ev_type = ''chapterEditEvent'',
               ev_data = Some [(''chapter'', hd (split_bars label))]\<rparr>),
           (''touchstart'', DispatchOnWindow
              \<lparr>ev_type = ''chapterEditEvent'',
               ev_data = Some [(''chapter'', hd (split_bars label))]\<rparr>)] [] [] # rest"
proof -
  obtain tag cl as' ls tx kids where base:
    "super_createEl ''li''
       (assign [(''className'', ''vjs-menu-item''), (''tabIndex'', ''-1'')] ps) ats =
     Element tag cl as' ls tx kids"
    by (cases "super_createEl ''li''
       (assign [(''className'', ''vjs-menu-item''), (''tabIndex'', ''-1'')] ps) ats") auto
  show ?thesis
  proof (cases "find_class ''vjs-icon-placeholder'' 0 kids")
    case None
    then have "createEl super_createEl localize label ty ps ats = Inl TypeError"
      using assms(1) base
      by (simp add: createEl_def Let_def new_Event_def dom_createEl_edit_button
          dom_createEl_text_span querySelector_prepend_edit_button)
    then show ?thesis using assms(2) by simp
  next
    case (Some p)
    show ?thesis
    proof (cases "\<exists>i. p = [i]")
      case True
      then obtain i where "find_class ''vjs-icon-placeholder'' 0 kids = Some [i]"
        using Some by auto
      from createEl_row [where super_createEl = super_createEl and localize = localize
          and ty = ty, OF assms(1) base this] assms(2)
      show ?thesis by auto
    next
      case False
      then obtain i j q where "p = i # j # q"
        using Some find_class_not_Nil [of "''vjs-icon-placeholder''" 0 kids]
        by (cases p; cases "tl p") auto
      then have "createEl super_createEl localize label ty ps ats = Inl NotFoundError"
        using assms(1) base Some
        by (simp add: createEl_def Let_def new_Event_def dom_createEl_edit_button
            dom_createEl_text_span querySelector_prepend_edit_button)
      then show ?thesis using assms(2) by simp
    qed
  qed
qed


lemma split_bars_first:
  "split_bars s =
     text_before_first_bars s #
       (case text_after_first_bars s of None \<Rightarrow> [] | Some r \<Rightarrow> split_bars r)"
  by (induction s rule: split_bars.induct) simp_all

lemma hd_split_bars: "hd (split_bars s) = text_before_first_bars s"
  by (subst split_bars_first) simp

lemma split_bars_second:
  "at_index (split_bars s) 1 = map_option text_before_first_bars (text_after_first_bars s)"
proof (cases "text_after_first_bars s")
  case None
  then show ?thesis
    by (subst split_bars_first) (simp add: at_index_def)
next
  case (Some r)
  have s: "split_bars s = text_before_first_bars s # split_bars r"
    using Some by (subst split_bars_first) simp
  obtain rest where r: "split_bars r = text_before_first_bars r # rest"
    using split_bars_first [of r] by blast
  show ?thesis
    using Some by (simp add: s r at_index_def)
qed

lemma dropWhile_all_iff: "(\<forall>c \<in> set (dropWhile P s). P c) \<longleftrightarrow> (\<forall>c \<in> set s. P c)"
proof
  assume a: "\<forall>c \<in> set (dropWhile P s). P c"
  have "dropWhile P s = []"
  proof (rule ccontr)
    assume ne: "dropWhile P s \<noteq> []"
    then have "\<not> P (hd (dropWhile P s))"
      by (rule hd_dropWhile)
    moreover have "hd (dropWhile P s) \<in> set (dropWhile P s)"
      using ne by simp
    ultimately show False
      using a by blast
  qed
  then show "\<forall>c \<in> set s. P c"
    by (simp add: dropWhile_eq_Nil_conv)
next
  assume "\<forall>c \<in> set s. P c"
  then show "\<forall>c \<in> set (dropWhile P s). P c"
    by (meson set_dropWhileD)
qed

lemma trim_empty_iff: "trim s = [] \<longleftrightarrow> (\<forall>c \<in> set s. is_white_space c)"
proof -
  have "trim s = [] \<longleftrightarrow> (\<forall>c \<in> set (dropWhile is_white_space s). is_white_space c)"
    by (simp add: trim_def)
  then show ?thesis
    by (simp only: dropWhile_all_iff)
qed

lemma getAttribute_role_selected:
  "getAttribute ''role'' (el_this (selected sel this)) = getAttribute ''role'' (el_this this)"
  by (simp add: selected_def component_defs Let_def)

lemma getAttribute_role_selected_calls:
  "getAttribute ''role'' (el_this (selected_calls bs this)) = getAttribute ''role'' (el_this this)"
  by (induction bs arbitrary: this) (simp_all add: getAttribute_role_selected)

lemma selectable_selected_calls [simp]: "selectable (selected_calls bs this) = selectable this"
  by (induction bs arbitrary: this) simp_all

lemma MenuItem_unfold:
  "MenuItem super_createEl localize opts =
     (case createEl super_createEl localize (opt_label opts) ''li'' [] [] of
        Inl e \<Rightarrow> Inl e
      | Inr el \<Rightarrow>
          Inr (el_setAttribute ''role''
                 (role_for (opt_selectable opts) (opt_multiSelectable opts))
                 (selected (opt_selected opts)
                    \<lparr>selectable = opt_selectable opts,
                     multiSelectable = opt_multiSelectable opts,
                     isSelected_this = opt_selected opts,
                     nonIconControl = True,
                     controlText_this = [],
                     el_this = el\<rparr>)))"
  by (simp add: MenuItem_def Let_def role_for_def split: sum.splits)

lemma MenuItem_InrE:
  assumes "MenuItem super_createEl localize opts = Inr this"
  obtains el where "createEl super_createEl localize (opt_label opts) ''li'' [] [] = Inr el"
    and "this = el_setAttribute ''role''
                 (role_for (opt_selectable opts) (opt_multiSelectable opts))
                 (selected (opt_selected opts)
                    \<lparr>selectable = opt_selectable opts,
                     multiSelectable = opt_multiSelectable opts,
                     isSelected_this = opt_selected opts,
                     nonIconControl = True,
                     controlText_this = [],
                     el_this = el\<rparr>)"
  using assms unfolding MenuItem_unfold by (auto split: sum.splits)

lemma edit_button_class_is_marker:
  "str_includes ''vjs-menu-item-chapter-edit-button'' ''-chapter-''"
  by simp

lemma marker_children:
  assumes "children el = k # rest" and "hasClass ''vjs-menu-item-chapter-edit-button'' k"
  shows "has_chapter_marker_class el"
proof -
  obtain t cl a l x ks where k: "k = Element t cl a l x ks"
    by (cases k)
  have "''vjs-menu-item-chapter-edit-button'' \<in> set cl"
    using assms(2) by (simp add: k hasClass_def)
  with edit_button_class_is_marker have "\<exists>c \<in> set cl. str_includes c ''-chapter-''"
    by (rule bexI)
  then have "has_chapter_marker_class k"
    unfolding k has_chapter_marker_class.simps by (rule disjI1)
  then show ?thesis
    using assms(1) by (cases el) auto
qed


subsection \<open>The example items, evaluated\<close>

lemma clickable_createEl_row:
  "clickable_createEl ''li''
     (assign [(''className'', ''vjs-menu-item''), (''tabIndex'', ''-1'')] []) [] =
   Element ''li'' [''vjs-menu-item''] [(''tabindex'', ''-1'')] [] []
     [Element ''span'' [''vjs-icon-placeholder''] [] [] [] []]"
  by (simp add: clickable_createEl_def dom_createEl_def assign_def class_tokens_menu_item
      class_tokens_placeholder prop_attr_name_def)

lemma clickable_createEl_hidden:
  "clickable_createEl ''li'' [(''style'', ''display: none;'')] [] = hidden_row [] []"
  by (simp add: clickable_createEl_def dom_createEl_def assign_def class_tokens_placeholder
      prop_attr_name_def hidden_row_def)

lemma split_bars_intro: "split_bars ''Intro||00:00:10'' = [''Intro'', ''00:00:10'']"
  by simp

lemma split_bars_blank: "split_bars ''  ||00:00:10'' = [''  '', ''00:00:10'']"
  by simp

lemma trim_intro: "trim ''Intro'' = ''Intro''"
  by (simp add: trim_def is_white_space_def)

lemma createEl_intro_example:
  "createEl clickable_createEl german ''Intro||00:00:10'' ''li'' [] [] = Inr (intro_row [])"
proof -
  have a: "trim (hd (split_bars ''Intro||00:00:10'')) \<noteq> []"
    by (simp only: split_bars_intro list.sel trim_intro) simp
  have b: "find_class ''vjs-icon-placeholder'' 0
      [Element ''span'' [''vjs-icon-placeholder''] [] [] [] []] = Some [0]"
    by simp
  have "createEl clickable_createEl german ''Intro||00:00:10'' ''li'' [] [] =
     Inr (Element ''li'' [''vjs-menu-item''] [(''tabindex'', ''-1'')] [] []
       (Element ''span'' [''vjs-menu-item-chapter-edit-button''] []
          [(''click'', DispatchOnWindow
              \<lparr>ev_type = ''chapterEditEvent'',
               ev_data = Some [(''chapter'', hd (split_bars ''Intro||00:00:10''))]\<rparr>),
           (''touchstart'', DispatchOnWindow
              \<lparr>ev_type = ''chapterEditEvent'',
               ev_data = Some [(''chapter'', hd (split_bars ''Intro||00:00:10''))]\<rparr>)] [] []
        # [Element ''span'' [''vjs-icon-placeholder''] [] [] [] []]
            [0 := Element ''span'' [''vjs-menu-item-text''] [] []
                      (german (hd (split_bars ''Intro||00:00:10''))) []]
        @ (case at_index (split_bars ''Intro||00:00:10'') 1 of
             None \<Rightarrow> []
           | Some t \<Rightarrow>
               if t = [] then []
               else [Element ''span'' [''vjs-menu-item-chapter-starttime''] [] [] (german t) []])))"
    using a clickable_createEl_row b by (rule createEl_row)
  then show ?thesis
    by (simp add: split_bars_intro at_index_def german_def intro_row_def edit_button_intro_def)
qed

lemma createEl_placeholder_example:
  "createEl clickable_createEl german ''  ||00:00:10'' ''li'' [] [] = Inr (hidden_row [] [])"
proof -
  have "trim (hd (split_bars ''  ||00:00:10'')) = []"
    by (simp only: split_bars_blank list.sel) (simp add: trim_def is_white_space_def)
  then show ?thesis
    by (simp only: createEl_blank clickable_createEl_hidden)
qed

lemma intro_row_marker: "has_chapter_marker_class (intro_row extra)"
  by (simp add: intro_row_def edit_button_intro_def)

lemma hidden_row_no_marker:
  "\<not> str_includes (outerHTML (hidden_row [] [])) ''-chapter-''"
  by (simp add: hidden_row_def class_html_def attr_html_def escape_attr_def
      escape_attr_char_def escape_text_def)

lemma MenuItem_intro_selectable:
  "MenuItem clickable_createEl german (intro_options True False True) =
     Inr (item_state True False False []
            (intro_row [(''aria-checked'', ''false''), (''role'', ''menuitemradio'')]))"
proof -
  let ?init = "\<lparr>selectable = True, multiSelectable = False, isSelected_this = True,
      nonIconControl = True, controlText_this = [], el_this = intro_row []\<rparr>"
  have "selected True ?init =
      ?init\<lparr>el_this := setAttribute ''aria-checked'' ''false''
                 (dom_removeClass ''vjs-selected'' (el_this ?init)),
             controlText_this := [], isSelected_this := False\<rparr>"
    by (rule selected_deselect_branch) (simp_all add: marker_class_in_markup intro_row_marker)
  then show ?thesis
    by (simp add: MenuItem_unfold intro_options_def createEl_intro_example role_for_def
        item_state_def el_setAttribute_def intro_row_def)
qed

lemma MenuItem_intro_not_selectable:
  "MenuItem clickable_createEl german (intro_options False True True) =
     Inr (item_state False True True [] (intro_row [(''role'', ''menuitem'')]))"
  by (simp add: MenuItem_unfold intro_options_def createEl_intro_example role_for_def
      item_state_def el_setAttribute_def intro_row_def selected_not_selectable)

lemma MenuItem_placeholder_selectable:
  "MenuItem clickable_createEl german (placeholder_options True False True) =
     Inr (item_state True False True '', selected''
            (hidden_row [''vjs-selected''] [(''aria-checked'', ''true''), (''role'', ''menuitemradio'')]))"
proof -
  let ?init = "\<lparr>selectable = True, multiSelectable = False, isSelected_this = True,
      nonIconControl = True, controlText_this = [], el_this = hidden_row [] []\<rparr>"
  have "selected True ?init =
      ?init\<lparr>el_this := setAttribute ''aria-checked'' ''true''
                 (dom_addClass ''vjs-selected'' (el_this ?init)),
             controlText_this := '', selected'', isSelected_this := True\<rparr>"
    by (rule selected_select_branch) (simp_all add: hidden_row_no_marker)
  then show ?thesis
    by (simp add: MenuItem_unfold placeholder_options_def createEl_placeholder_example
        role_for_def item_state_def el_setAttribute_def hidden_row_def)
qed

lemma isSelected_role [simp]:
  "isSelected_this (el_setAttribute name v this) = isSelected_this this"
  by (simp add: el_setAttribute_def)

lemma el_this_el_setAttribute [simp]:
  "el_this (el_setAttribute name v this) = setAttribute name v (el_this this)"
  by (simp add: el_setAttribute_def)

lemma selectable_el_setAttribute [simp]:
  "selectable (el_setAttribute name v this) = selectable this"
  by (simp add: el_setAttribute_def)

lemma isSelected_selected:
  "isSelected_this (selected sel this) =
     (if selectable this then sel \<and> \<not> str_includes (outerHTML (el_this this)) ''-chapter-''
      else isSelected_this this)"
  by (simp add: selected_def component_defs Let_def)

lemma shows_deselected_after_calls:
  assumes m: "has_chapter_marker_class (el_this this)" and sel: "selectable this"
    and d: "\<not> hasClass ''vjs-selected'' (el_this this) \<and>
            getAttribute ''aria-checked'' (el_this this) = Some ''false'' \<and>
            \<not> isSelected_this this"
  shows "\<not> hasClass ''vjs-selected'' (el_this (selected_calls bs this)) \<and>
         getAttribute ''aria-checked'' (el_this (selected_calls bs this)) = Some ''false'' \<and>
         \<not> isSelected_this (selected_calls bs this)"
proof (cases "bs = []")
  case True
  then show ?thesis using d by simp
next
  case False
  show ?thesis
    using marker_selected_calls_state [OF m sel False] by simp
qed


section \<open>The claims\<close>

text \<open>C1, as amended: for a selectable item whose \<open>outerHTML\<close> has no \<open>-chapter-\<close> anywhere
  (the test of line 153), \<open>selected(true)\<close> adds the class \<open>vjs-selected\<close>, sets \<open>aria-checked\<close>
  to \<open>true\<close>, replaces the control text by \<open>, selected\<close>, whatever it was, and sets the internal
  flag.\<close>

theorem selected_true_enters_selected_state:
  assumes "selectable this"
    and "\<not> str_includes (outerHTML (el_this this)) ''-chapter-''"
  shows "selected True this =
           this\<lparr>el_this := setAttribute ''aria-checked'' ''true''
                             (dom_addClass ''vjs-selected'' (el_this this)),
                controlText_this := '', selected'', isSelected_this := True\<rparr> \<and>
         hasClass ''vjs-selected'' (el_this (selected True this)) \<and>
         getAttribute ''aria-checked'' (el_this (selected True this)) = Some ''true'' \<and>
         controlText_this (selected True this) = '', selected'' \<and>
         isSelected_this (selected True this)"
proof -
  have "selected True this =
     this\<lparr>el_this := setAttribute ''aria-checked'' ''true'' (dom_addClass ''vjs-selected'' (el_this this)),
          controlText_this := '', selected'', isSelected_this := True\<rparr>"
    using assms by (intro selected_select_branch) simp_all
  then show ?thesis
    by simp
qed

theorem selected_true_enters_selected_state_witness:
  "selectable (item_state True False False ''Play'' (hidden_row [] [])) \<and>
   \<not> str_includes (outerHTML (el_this (item_state True False False ''Play'' (hidden_row [] []))))
       ''-chapter-'' \<and>
   selected True (item_state True False False ''Play'' (hidden_row [] [])) =
     item_state True False True '', selected''
       (hidden_row [''vjs-selected''] [(''aria-checked'', ''true'')]) \<and>
   hasClass ''vjs-selected''
     (el_this (selected True (item_state True False False ''Play'' (hidden_row [] [])))) \<and>
   getAttribute ''aria-checked''
     (el_this (selected True (item_state True False False ''Play'' (hidden_row [] [])))) =
     Some ''true''"
proof -
  let ?item = "item_state True False False ''Play'' (hidden_row [] [])"
  have a: "selectable ?item"
    by (simp add: item_state_def)
  have b: "\<not> str_includes (outerHTML (el_this ?item)) ''-chapter-''"
    using hidden_row_no_marker by (simp add: item_state_def)
  have c: "?item\<lparr>el_this := setAttribute ''aria-checked'' ''true''
                             (dom_addClass ''vjs-selected'' (el_this ?item)),
                controlText_this := '', selected'', isSelected_this := True\<rparr> =
     item_state True False True '', selected''
       (hidden_row [''vjs-selected''] [(''aria-checked'', ''true'')])"
    by (simp add: item_state_def hidden_row_def)
  show ?thesis
    using selected_true_enters_selected_state [OF a b] a b c by auto
qed

text \<open>C1 as stated fails twice.  A selectable item whose markup has no chapter-marker class,
  but has \<open>-chapter-\<close> in the value of a \<open>data-x\<close> attribute, is sent to the else branch by
  line 153: \<open>selected(true)\<close> leaves it without \<open>vjs-selected\<close>, with \<open>aria-checked\<close> \<open>false\<close> and
  the flag false.  And where the selected state is entered, the control text \<open>Play\<close> becomes
  \<open>, selected\<close>, not \<open>Play, selected\<close>: line 158 replaces the text.\<close>

theorem selected_true_enters_selected_state_counterexample:
  "selectable (item_state True False False ''Play''
      (hidden_row [] [(''data-x'', ''a-chapter-b'')])) \<and>
   \<not> has_chapter_marker_class (hidden_row [] [(''data-x'', ''a-chapter-b'')]) \<and>
   selected True (item_state True False False ''Play''
      (hidden_row [] [(''data-x'', ''a-chapter-b'')])) =
     item_state True False False []
       (hidden_row [] [(''data-x'', ''a-chapter-b''), (''aria-checked'', ''false'')]) \<and>
   \<not> hasClass ''vjs-selected''
       (el_this (selected True (item_state True False False ''Play''
          (hidden_row [] [(''data-x'', ''a-chapter-b'')])))) \<and>
   controlText_this (selected True (item_state True False False ''Play'' (hidden_row [] []))) =
     '', selected'' \<and>
   controlText_this (selected True (item_state True False False ''Play'' (hidden_row [] []))) \<noteq>
     ''Play, selected''"
proof -
  have inc: "str_includes (outerHTML (hidden_row [] [(''data-x'', ''a-chapter-b'')])) ''-chapter-''"
    by (simp add: hidden_row_def class_html_def attr_html_def escape_attr_def
        escape_attr_char_def escape_text_def)
  have d: "selected True (item_state True False False ''Play''
      (hidden_row [] [(''data-x'', ''a-chapter-b'')])) =
     item_state True False False []
       (hidden_row [] [(''data-x'', ''a-chapter-b''), (''aria-checked'', ''false'')])"
    using inc by (simp add: selected_def component_defs item_state_def)
      (simp add: hidden_row_def)
  have e: "selected True (item_state True False False ''Play'' (hidden_row [] [])) =
     item_state True False True '', selected''
       (hidden_row [''vjs-selected''] [(''aria-checked'', ''true'')])"
    using hidden_row_no_marker by (simp add: selected_def component_defs item_state_def)
      (simp add: hidden_row_def)
  have m: "\<not> has_chapter_marker_class (hidden_row [] [(''data-x'', ''a-chapter-b'')])"
    by (simp add: hidden_row_def)
  show ?thesis
    unfolding d e using m by (simp add: item_state_def hidden_row_def hasClass_def)
qed

text \<open>C2, as amended: an item constructed from a label whose part before the first \<open>||\<close> is
  not blank has the span of class \<open>vjs-menu-item-chapter-edit-button\<close> as the first child of the
  element that \<open>createEl\<close> built; after the constructor and after any further \<open>selected\<close> calls
  its \<open>outerHTML\<close> contains \<open>-chapter-\<close>.  When the item is selectable, \<open>selected(true)\<close> has
  the effect of the else branch (lines 161 to 165), the class \<open>vjs-selected\<close> is absent,
  \<open>aria-checked\<close> is \<open>false\<close> and the flag is false, at every such moment.  When it is not
  selectable, \<open>selected\<close> takes no branch: the calls change nothing and the flag keeps the
  configured value.\<close>

theorem named_item_always_chapter_variant:
  assumes "trim (text_before_first_bars (opt_label opts)) \<noteq> []"
    and "MenuItem super_createEl localize opts = Inr this"
  shows "(\<exists>el btn rest.
            createEl super_createEl localize (opt_label opts) ''li'' [] [] = Inr el \<and>
            children el = btn # rest \<and>
            classList btn = [''vjs-menu-item-chapter-edit-button'']) \<and>
         str_includes (outerHTML (el_this (selected_calls bs this))) ''-chapter-'' \<and>
         (opt_selectable opts \<longrightarrow>
            selected True (selected_calls bs this) =
              (selected_calls bs this)
                \<lparr>el_this := setAttribute ''aria-checked'' ''false''
                     (dom_removeClass ''vjs-selected'' (el_this (selected_calls bs this))),
                 controlText_this := [], isSelected_this := False\<rparr> \<and>
            \<not> hasClass ''vjs-selected'' (el_this (selected_calls bs this)) \<and>
            getAttribute ''aria-checked'' (el_this (selected_calls bs this)) = Some ''false'' \<and>
            \<not> isSelected_this (selected_calls bs this)) \<and>
         (\<not> opt_selectable opts \<longrightarrow>
            selected_calls bs this = this \<and>
            selected True (selected_calls bs this) = selected_calls bs this \<and>
            isSelected_this (selected_calls bs this) = opt_selected opts)"
proof -
  from assms(2) obtain el where
    el: "createEl super_createEl localize (opt_label opts) ''li'' [] [] = Inr el"
    and st: "this = el_setAttribute ''role''
                 (role_for (opt_selectable opts) (opt_multiSelectable opts))
                 (selected (opt_selected opts)
                    \<lparr>selectable = opt_selectable opts,
                     multiSelectable = opt_multiSelectable opts,
                     isSelected_this = opt_selected opts,
                     nonIconControl = True,
                     controlText_this = [],
                     el_this = el\<rparr>)"
    by (rule MenuItem_InrE)
  have nb: "trim (hd (split_bars (opt_label opts))) \<noteq> []"
    using assms(1) by (simp add: hd_split_bars)
  from createEl_Inr_nonblank [OF nb el] obtain btn rest where
    kids: "children el = btn # rest"
    and btn: "classList btn = [''vjs-menu-item-chapter-edit-button'']"
    by auto
  have m0: "has_chapter_marker_class el"
    using kids by (rule marker_children) (simp add: hasClass_def btn)
  have m: "has_chapter_marker_class (el_this this)"
    unfolding st el_this_el_setAttribute marker_setAttribute
    by (rule marker_selected) (simp add: m0)
  have sel: "selectable this = opt_selectable opts"
    by (simp add: st)
  have ms: "has_chapter_marker_class (el_this (selected_calls bs this))"
    using m by (rule marker_selected_calls)
  have inc: "str_includes (outerHTML (el_this (selected_calls bs this))) ''-chapter-''"
    using ms by (rule marker_class_in_markup)
  have noop: "selected_calls bs this = this \<and>
      selected True (selected_calls bs this) = selected_calls bs this \<and>
      isSelected_this (selected_calls bs this) = opt_selected opts"
    if "\<not> opt_selectable opts"
  proof -
    have "selected_calls bs this = this"
      using that sel by (simp add: selected_calls_not_selectable)
    moreover have "selected True this = this"
      using that sel by (simp add: selected_not_selectable)
    moreover have "isSelected_this this = opt_selected opts"
      using that by (simp add: st selected_not_selectable)
    ultimately show ?thesis
      by simp
  qed
  have branch: "selected True (selected_calls bs this) =
              (selected_calls bs this)
                \<lparr>el_this := setAttribute ''aria-checked'' ''false''
                     (dom_removeClass ''vjs-selected'' (el_this (selected_calls bs this))),
                 controlText_this := [], isSelected_this := False\<rparr>"
    if "opt_selectable opts"
    using that sel inc by (intro selected_deselect_branch) simp_all
  have facets: "\<not> hasClass ''vjs-selected'' (el_this (selected_calls bs this)) \<and>
            getAttribute ''aria-checked'' (el_this (selected_calls bs this)) = Some ''false'' \<and>
            \<not> isSelected_this (selected_calls bs this)"
    if s: "opt_selectable opts"
  proof -
    have "selected (opt_selected opts)
            \<lparr>selectable = opt_selectable opts,
                     multiSelectable = opt_multiSelectable opts,
                     isSelected_this = opt_selected opts,
                     nonIconControl = True,
                     controlText_this = [],
                     el_this = el\<rparr> =
          \<lparr>selectable = opt_selectable opts,
                     multiSelectable = opt_multiSelectable opts,
                     isSelected_this = opt_selected opts,
                     nonIconControl = True,
                     controlText_this = [],
                     el_this = el\<rparr>
            \<lparr>el_this := setAttribute ''aria-checked'' ''false''
                 (dom_removeClass ''vjs-selected'' el),
             controlText_this := [], isSelected_this := False\<rparr>"
      using s m0 by (subst selected_deselect_branch) (simp_all add: marker_class_in_markup)
    then have "\<not> hasClass ''vjs-selected'' (el_this this) \<and>
            getAttribute ''aria-checked'' (el_this this) = Some ''false'' \<and>
            \<not> isSelected_this this"
      by (simp add: st)
    with m sel s show ?thesis
      by (intro shows_deselected_after_calls) simp_all
  qed
  from el kids btn inc noop branch facets show ?thesis
    by blast
qed

theorem named_item_always_chapter_variant_witness:
  "trim (text_before_first_bars (opt_label (intro_options True False True))) \<noteq> [] \<and>
   MenuItem clickable_createEl german (intro_options True False True) =
     Inr (item_state True False False []
            (intro_row [(''aria-checked'', ''false''), (''role'', ''menuitemradio'')])) \<and>
   opt_selectable (intro_options True False True) \<and>
   str_includes
     (outerHTML (el_this (selected_calls [True, False, True]
        (item_state True False False []
            (intro_row [(''aria-checked'', ''false''), (''role'', ''menuitemradio'')])))))
     ''-chapter-'' \<and>
   \<not> hasClass ''vjs-selected''
     (el_this (selected_calls [True, False, True]
        (item_state True False False []
            (intro_row [(''aria-checked'', ''false''), (''role'', ''menuitemradio'')])))) \<and>
   trim (text_before_first_bars (opt_label (intro_options False True True))) \<noteq> [] \<and>
   MenuItem clickable_createEl german (intro_options False True True) =
     Inr (item_state False True True [] (intro_row [(''role'', ''menuitem'')])) \<and>
   \<not> opt_selectable (intro_options False True True) \<and>
   selected_calls [True, True] (item_state False True True [] (intro_row [(''role'', ''menuitem'')])) =
     item_state False True True [] (intro_row [(''role'', ''menuitem'')]) \<and>
   isSelected_this
       (selected_calls [True, True]
          (item_state False True True [] (intro_row [(''role'', ''menuitem'')]))) =
     opt_selected (intro_options False True True)"
proof -
  have nb1: "trim (text_before_first_bars (opt_label (intro_options True False True))) \<noteq> []"
    by (simp add: intro_options_def trim_def is_white_space_def)
  have nb2: "trim (text_before_first_bars (opt_label (intro_options False True True))) \<noteq> []"
    by (simp add: intro_options_def trim_def is_white_space_def)
  have s1: "opt_selectable (intro_options True False True)"
    and s2: "\<not> opt_selectable (intro_options False True True)"
    by (simp_all add: intro_options_def)
  show ?thesis
    using named_item_always_chapter_variant
        [OF nb1 MenuItem_intro_selectable, of "[True, False, True]"]
      named_item_always_chapter_variant
        [OF nb2 MenuItem_intro_not_selectable, of "[True, True]"]
      nb1 nb2 s1 s2 MenuItem_intro_selectable MenuItem_intro_not_selectable
    by blast
qed

text \<open>C2 as stated fails: an item labelled \<open>Intro||00:00:10\<close> that is not selectable and is
  configured as selected has the flag true after construction (line 33), and \<open>selected(true)\<close>
  takes no branch on it (line 152): the state, flag included, stays as it was.\<close>

theorem named_item_always_chapter_variant_counterexample:
  "trim (text_before_first_bars (opt_label (intro_options False True True))) \<noteq> [] \<and>
   (case MenuItem clickable_createEl german (intro_options False True True) of
      Inl e \<Rightarrow> False
    | Inr this \<Rightarrow>
        isSelected_this this \<and>
        selected True this = this \<and>
        isSelected_this (selected True this) \<and>
        getAttribute ''aria-checked'' (el_this (selected True this)) = None)"
proof -
  have nb: "trim (text_before_first_bars (opt_label (intro_options False True True))) \<noteq> []"
    by (simp add: intro_options_def trim_def is_white_space_def)
  have "selected True (item_state False True True [] (intro_row [(''role'', ''menuitem'')])) =
      item_state False True True [] (intro_row [(''role'', ''menuitem'')])"
    by (rule selected_not_selectable) (simp add: item_state_def)
  then show ?thesis
    using nb by (simp add: MenuItem_intro_not_selectable)
      (simp add: item_state_def intro_row_def getAttribute_def)
qed

text \<open>C3: an item whose markup contains the chapter-marker class keeps it through every
  sequence of \<open>selected\<close> calls, so the test of line 153 finds \<open>-chapter-\<close> at each call.  On a
  selectable item every non-empty sequence of calls, whatever their arguments, ends in the
  deselected state: no class \<open>vjs-selected\<close>, \<open>aria-checked\<close> equal to \<open>false\<close>, empty control
  text, flag false.  Otherwise the calls change nothing.  So no sequence of calls brings about
  \<open>aria-checked="true"\<close> or the selection class.\<close>

theorem chapter_variant_never_selected:
  assumes "has_chapter_marker_class (el_this this)"
  shows "has_chapter_marker_class (el_this (selected_calls bs this)) \<and>
         str_includes (outerHTML (el_this (selected_calls bs this))) ''-chapter-'' \<and>
         (selectable this \<and> bs \<noteq> [] \<longrightarrow>
            \<not> hasClass ''vjs-selected'' (el_this (selected_calls bs this)) \<and>
            getAttribute ''aria-checked'' (el_this (selected_calls bs this)) = Some ''false'' \<and>
            controlText_this (selected_calls bs this) = [] \<and>
            \<not> isSelected_this (selected_calls bs this)) \<and>
         (\<not> (selectable this \<and> bs \<noteq> []) \<longrightarrow> selected_calls bs this = this)"
proof -
  have m: "has_chapter_marker_class (el_this (selected_calls bs this))"
    using assms by (rule marker_selected_calls)
  have "selected_calls bs this = this" if "\<not> (selectable this \<and> bs \<noteq> [])"
    using that by (cases "selectable this") (auto simp: selected_calls_not_selectable)
  moreover have "\<not> hasClass ''vjs-selected'' (el_this (selected_calls bs this)) \<and>
      getAttribute ''aria-checked'' (el_this (selected_calls bs this)) = Some ''false'' \<and>
      controlText_this (selected_calls bs this) = [] \<and>
      \<not> isSelected_this (selected_calls bs this)"
    if "selectable this \<and> bs \<noteq> []"
    using marker_selected_calls_state [OF assms, of bs] that by simp
  ultimately show ?thesis
    using m marker_class_in_markup [OF m] by blast
qed

theorem chapter_variant_never_selected_witness:
  "has_chapter_marker_class (el_this (item_state True False False [] (intro_row []))) \<and>
   selectable (item_state True False False [] (intro_row [])) \<and>
   selected_calls [True, True, False, True] (item_state True False False [] (intro_row [])) =
     item_state True False False [] (intro_row [(''aria-checked'', ''false'')]) \<and>
   \<not> hasClass ''vjs-selected''
       (el_this (selected_calls [True, True, False, True]
          (item_state True False False [] (intro_row [])))) \<and>
   getAttribute ''aria-checked''
       (el_this (selected_calls [True, True, False, True]
          (item_state True False False [] (intro_row [])))) = Some ''false'' \<and>
   has_chapter_marker_class
     (el_this (item_state False False True '', selected'' (intro_row [(''aria-checked'', ''true'')]))) \<and>
   \<not> selectable
       (item_state False False True '', selected'' (intro_row [(''aria-checked'', ''true'')])) \<and>
   selected_calls [True, False]
       (item_state False False True '', selected'' (intro_row [(''aria-checked'', ''true'')])) =
     item_state False False True '', selected'' (intro_row [(''aria-checked'', ''true'')])"
proof -
  let ?a = "item_state True False False [] (intro_row [])"
  let ?b = "item_state False False True '', selected'' (intro_row [(''aria-checked'', ''true'')])"
  have ma: "has_chapter_marker_class (el_this ?a)"
    by (simp add: item_state_def intro_row_marker)
  have mb: "has_chapter_marker_class (el_this ?b)"
    by (simp add: item_state_def intro_row_marker)
  have sa: "selectable ?a \<and> [True, True, False, True] \<noteq> []"
    by (simp add: item_state_def)
  have sb: "\<not> (selectable ?b \<and> [True, False] \<noteq> [])"
    by (simp add: item_state_def)
  have ea: "selected_calls [True, True, False, True] ?a =
      item_state True False False [] (intro_row [(''aria-checked'', ''false'')])"
    using marker_selected_calls_state [OF ma, of "[True, True, False, True]"]
    by (simp add: item_state_def intro_row_def)
  show ?thesis
    using chapter_variant_never_selected [OF ma, of "[True, True, False, True]"]
      chapter_variant_never_selected [OF mb, of "[True, False]"] ma mb sa sb ea
    by simp
qed

text \<open>C4, as amended: after construction the internal flag is the supplied \<open>selected\<close> value,
  except on a selectable item whose rendered markup has \<open>-chapter-\<close> in it, where it is false
  whatever was supplied; every selectable item with a non-blank name is such an item.\<close>

theorem constructed_isSelected:
  assumes "MenuItem super_createEl localize opts = Inr this"
  shows "\<exists>el. createEl super_createEl localize (opt_label opts) ''li'' [] [] = Inr el \<and>
           isSelected_this this =
             (opt_selected opts \<and>
              \<not> (opt_selectable opts \<and> str_includes (outerHTML el) ''-chapter-'')) \<and>
           (trim (text_before_first_bars (opt_label opts)) \<noteq> [] \<longrightarrow>
              isSelected_this this = (opt_selected opts \<and> \<not> opt_selectable opts))"
proof -
  from assms obtain el where
    el: "createEl super_createEl localize (opt_label opts) ''li'' [] [] = Inr el"
    and st: "this = el_setAttribute ''role''
                 (role_for (opt_selectable opts) (opt_multiSelectable opts))
                 (selected (opt_selected opts)
                    \<lparr>selectable = opt_selectable opts,
                     multiSelectable = opt_multiSelectable opts,
                     isSelected_this = opt_selected opts,
                     nonIconControl = True,
                     controlText_this = [],
                     el_this = el\<rparr>)"
    by (rule MenuItem_InrE)
  have flag: "isSelected_this this =
      (opt_selected opts \<and> \<not> (opt_selectable opts \<and> str_includes (outerHTML el) ''-chapter-''))"
    by (auto simp add: st isSelected_selected)
  have "str_includes (outerHTML el) ''-chapter-''"
    if "trim (text_before_first_bars (opt_label opts)) \<noteq> []"
  proof -
    from that have "trim (hd (split_bars (opt_label opts))) \<noteq> []"
      by (simp add: hd_split_bars)
    from createEl_Inr_nonblank [OF this el] obtain rest k where
      "children el = k # rest" and "hasClass ''vjs-menu-item-chapter-edit-button'' k"
      by (auto simp: hasClass_def)
    then have "has_chapter_marker_class el"
      by (rule marker_children)
    then show ?thesis
      by (rule marker_class_in_markup)
  qed
  with flag el show ?thesis
    by auto
qed

theorem constructed_isSelected_witness:
  "MenuItem clickable_createEl german (intro_options True False True) =
     Inr (item_state True False False []
            (intro_row [(''aria-checked'', ''false''), (''role'', ''menuitemradio'')])) \<and>
   trim (text_before_first_bars (opt_label (intro_options True False True))) \<noteq> [] \<and>
   isSelected_this (item_state True False False []
            (intro_row [(''aria-checked'', ''false''), (''role'', ''menuitemradio'')])) =
     (opt_selected (intro_options True False True) \<and>
      \<not> opt_selectable (intro_options True False True)) \<and>
   MenuItem clickable_createEl german (placeholder_options True False True) =
     Inr (item_state True False True '', selected''
            (hidden_row [''vjs-selected'']
               [(''aria-checked'', ''true''), (''role'', ''menuitemradio'')])) \<and>
   createEl clickable_createEl german (opt_label (placeholder_options True False True))
       ''li'' [] [] = Inr (hidden_row [] []) \<and>
   isSelected_this (item_state True False True '', selected''
            (hidden_row [''vjs-selected'']
               [(''aria-checked'', ''true''), (''role'', ''menuitemradio'')])) =
     (opt_selected (placeholder_options True False True) \<and>
      \<not> (opt_selectable (placeholder_options True False True) \<and>
         str_includes (outerHTML (hidden_row [] [])) ''-chapter-''))"
proof -
  have nb: "trim (text_before_first_bars (opt_label (intro_options True False True))) \<noteq> []"
    by (simp add: intro_options_def trim_def is_white_space_def)
  have el: "createEl clickable_createEl german (opt_label (placeholder_options True False True))
       ''li'' [] [] = Inr (hidden_row [] [])"
    by (simp add: placeholder_options_def createEl_placeholder_example)
  show ?thesis
    using constructed_isSelected [OF MenuItem_intro_selectable]
      constructed_isSelected [OF MenuItem_placeholder_selectable]
      MenuItem_intro_selectable MenuItem_placeholder_selectable nb el
    by auto
qed

text \<open>C4 as stated fails: a selectable item labelled \<open>Intro||00:00:10\<close> and configured as
  selected is not selected after construction.\<close>

theorem constructed_isSelected_counterexample:
  "opt_selected (intro_options True False True) \<and>
   (case MenuItem clickable_createEl german (intro_options True False True) of
      Inl e \<Rightarrow> False
    | Inr this \<Rightarrow> \<not> isSelected_this this)"
  by (simp add: MenuItem_intro_selectable) (simp add: intro_options_def item_state_def)

text \<open>C5: on an item that is not selectable, any sequence of \<open>selected\<close> calls leaves the whole
  state as it was: the class list, the \<open>aria-checked\<close> attribute and the control text are
  those from before the calls.\<close>

theorem not_selectable_selected_noop:
  assumes "\<not> selectable this"
  shows "selected_calls bs this = this \<and>
         classList (el_this (selected_calls bs this)) = classList (el_this this) \<and>
         getAttribute ''aria-checked'' (el_this (selected_calls bs this)) =
           getAttribute ''aria-checked'' (el_this this) \<and>
         controlText_this (selected_calls bs this) = controlText_this this"
  using assms by (simp add: selected_calls_not_selectable)

theorem not_selectable_selected_noop_witness:
  "\<not> selectable (item_state False True True [] (hidden_row [] [(''role'', ''menuitem'')])) \<and>
   selected_calls [True, False, True]
       (item_state False True True [] (hidden_row [] [(''role'', ''menuitem'')])) =
     item_state False True True [] (hidden_row [] [(''role'', ''menuitem'')])"
proof -
  have a: "\<not> selectable (item_state False True True [] (hidden_row [] [(''role'', ''menuitem'')]))"
    by (simp add: item_state_def)
  show ?thesis
    using not_selectable_selected_noop [OF a, of "[True, False, True]"] a by simp
qed

text \<open>C6, as amended: the constructor sets the role, and no \<open>selected\<close> call changes it:
  \<open>menuitemcheckbox\<close> when the item is selectable and multi-selectable, \<open>menuitemradio\<close> when it
  is selectable and not multi-selectable, \<open>menuitem\<close> when it is not selectable.\<close>

theorem role_fixed_at_construction:
  assumes "MenuItem super_createEl localize opts = Inr this"
  shows "getAttribute ''role'' (el_this (selected_calls bs this)) =
           Some (if opt_selectable opts
                 then (if opt_multiSelectable opts then ''menuitemcheckbox''
                       else ''menuitemradio'')
                 else ''menuitem'')"
proof -
  from assms obtain el where
    st: "this = el_setAttribute ''role''
                 (role_for (opt_selectable opts) (opt_multiSelectable opts))
                 (selected (opt_selected opts)
                    \<lparr>selectable = opt_selectable opts,
                     multiSelectable = opt_multiSelectable opts,
                     isSelected_this = opt_selected opts,
                     nonIconControl = True,
                     controlText_this = [],
                     el_this = el\<rparr>)"
    by (rule MenuItem_InrE)
  have "getAttribute ''role'' (el_this this) =
      Some (role_for (opt_selectable opts) (opt_multiSelectable opts))"
    by (simp add: st)
  then show ?thesis
    by (simp add: getAttribute_role_selected_calls role_for_def)
qed

theorem role_fixed_at_construction_witness:
  "MenuItem clickable_createEl german (intro_options True False True) =
     Inr (item_state True False False []
            (intro_row [(''aria-checked'', ''false''), (''role'', ''menuitemradio'')])) \<and>
   getAttribute ''role''
     (el_this (selected_calls [True, False, True]
        (item_state True False False []
            (intro_row [(''aria-checked'', ''false''), (''role'', ''menuitemradio'')])))) =
     Some ''menuitemradio''"
  using role_fixed_at_construction [OF MenuItem_intro_selectable, of "[True, False, True]"]
    MenuItem_intro_selectable
  by (simp add: intro_options_def)

text \<open>C6 as stated fails: an item configured with \<open>multiSelectable = true\<close> and
  \<open>selectable = false\<close> gets the role \<open>menuitem\<close>, not \<open>menuitemcheckbox\<close>.\<close>

theorem role_fixed_at_construction_counterexample:
  "opt_multiSelectable (intro_options False True True) \<and>
   (case MenuItem clickable_createEl german (intro_options False True True) of
      Inl e \<Rightarrow> False
    | Inr this \<Rightarrow>
        getAttribute ''role'' (el_this this) = Some ''menuitem'' \<and>
        getAttribute ''role'' (el_this this) \<noteq> Some ''menuitemcheckbox'')"
  by (simp add: MenuItem_intro_not_selectable)
    (simp add: intro_options_def item_state_def intro_row_def getAttribute_def)

text \<open>C7: when the event's key is one of the menu's keys, \<open>handleKeyDown\<close> returns without
  calling the base handler, whatever that handler is; for any other key its effect is that of
  one call of the base handler on the event.\<close>

theorem handleKeyDown_consumes_or_delegates:
  "((\<exists>key \<in> set MenuKeys. isEventKey event key) \<longrightarrow>
      handleKeyDown MenuKeys isEventKey super_handleKeyDown event this = this) \<and>
   (\<not> (\<exists>key \<in> set MenuKeys. isEventKey event key) \<longrightarrow>
      handleKeyDown MenuKeys isEventKey super_handleKeyDown event this =
        super_handleKeyDown event this)"
  by (simp add: handleKeyDown_def list_ex_iff)

theorem handleKeyDown_consumes_or_delegates_witness:
  "(\<exists>key \<in> set [''Tab'', ''Esc'', ''Up'', ''Down'', ''Left'', ''Right''].
       (\<lambda>e k. e = k) ''Esc'' key) \<and>
   handleKeyDown [''Tab'', ''Esc'', ''Up'', ''Down'', ''Left'', ''Right''] (\<lambda>e k. e = k)
       (\<lambda>e calls. calls @ [e]) ''Esc'' [] = [] \<and>
   \<not> (\<exists>key \<in> set [''Tab'', ''Esc'', ''Up'', ''Down'', ''Left'', ''Right''].
       (\<lambda>e k. e = k) ''Enter'' key) \<and>
   handleKeyDown [''Tab'', ''Esc'', ''Up'', ''Down'', ''Left'', ''Right''] (\<lambda>e k. e = k)
       (\<lambda>e calls. calls @ [e]) ''Enter'' [] = [''Enter'']"
  using handleKeyDown_consumes_or_delegates
      [of "[''Tab'', ''Esc'', ''Up'', ''Down'', ''Left'', ''Right'']" "\<lambda>e k. e = k" "''Esc''"
        "\<lambda>e calls. calls @ [e]" "[]"]
    handleKeyDown_consumes_or_delegates
      [of "[''Tab'', ''Esc'', ''Up'', ''Down'', ''Left'', ''Right'']" "\<lambda>e k. e = k" "''Enter''"
        "\<lambda>e calls. calls @ [e]" "[]"]
  by simp

text \<open>C8, as amended: \<open>createEl\<close> splits the label at every \<open>||\<close>.  The primary text is the
  text before the first \<open>||\<close>; the secondary text, present when the label has a \<open>||\<close>, is the
  text between the first \<open>||\<close> and the second (everything after the first only when there is no
  second).  For a name that is not blank, and a base element whose icon placeholder is one of
  its children, the row gets the edit control in front, the text span with the localized
  primary text in the placeholder's position, and at the end a span with the localized
  secondary text exactly when the secondary text is present and not empty.\<close>

theorem createEl_label_parts:
  assumes "trim (text_before_first_bars label) \<noteq> []"
    and "super_createEl ''li''
           (assign [(''className'', ''vjs-menu-item''), (''tabIndex'', ''-1'')] ps) ats =
         Element tag cl as' ls tx kids"
    and "find_class ''vjs-icon-placeholder'' 0 kids = Some [i]"
  shows "hd (split_bars label) = text_before_first_bars label \<and>
         at_index (split_bars label) 1 =
           map_option text_before_first_bars (text_after_first_bars label) \<and>
         createEl super_createEl localize label tag_type ps ats =
           Inr (Element tag cl as' ls tx
             (Element ''span'' [''vjs-menu-item-chapter-edit-button''] []
                [(''click'', DispatchOnWindow
                    \<lparr>ev_type = ''chapterEditEvent'',
                     ev_data = Some [(''chapter'', text_before_first_bars label)]\<rparr>),
                 (''touchstart'', DispatchOnWindow
                    \<lparr>ev_type = ''chapterEditEvent'',
                     ev_data = Some [(''chapter'', text_before_first_bars label)]\<rparr>)] [] []
              # kids[i := Element ''span'' [''vjs-menu-item-text''] [] []
                            (localize (text_before_first_bars label)) []]
              @ (case map_option text_before_first_bars (text_after_first_bars label) of
                   None \<Rightarrow> []
                 | Some t \<Rightarrow>
                     if t = [] then []
                     else [Element ''span'' [''vjs-menu-item-chapter-starttime''] [] []
                             (localize t) []])))"
proof -
  have nb: "trim (hd (split_bars label)) \<noteq> []"
    using assms(1) by (simp add: hd_split_bars)
  show ?thesis
    using createEl_row [where super_createEl = super_createEl and localize = localize
        and ty = tag_type, OF nb assms(2) assms(3)]
    unfolding hd_split_bars split_bars_second by simp
qed

theorem createEl_label_parts_witness:
  "trim (text_before_first_bars ''Intro||00:00:10'') \<noteq> [] \<and>
   clickable_createEl ''li''
       (assign [(''className'', ''vjs-menu-item''), (''tabIndex'', ''-1'')] []) [] =
     Element ''li'' [''vjs-menu-item''] [(''tabindex'', ''-1'')] [] []
       [Element ''span'' [''vjs-icon-placeholder''] [] [] [] []] \<and>
   find_class ''vjs-icon-placeholder'' 0
       [Element ''span'' [''vjs-icon-placeholder''] [] [] [] []] = Some [0] \<and>
   createEl clickable_createEl german ''Intro||00:00:10'' ''li'' [] [] =
     Inr (Element ''li'' [''vjs-menu-item''] [(''tabindex'', ''-1'')] [] []
       [Element ''span'' [''vjs-menu-item-chapter-edit-button''] []
          [(''click'', DispatchOnWindow
              \<lparr>ev_type = ''chapterEditEvent'', ev_data = Some [(''chapter'', ''Intro'')]\<rparr>),
           (''touchstart'', DispatchOnWindow
              \<lparr>ev_type = ''chapterEditEvent'', ev_data = Some [(''chapter'', ''Intro'')]\<rparr>)]
          [] [],
        Element ''span'' [''vjs-menu-item-text''] [] [] ''Einleitung'' [],
        Element ''span'' [''vjs-menu-item-chapter-starttime''] [] [] ''00:00:10'' []])"
proof -
  have a: "trim (text_before_first_bars ''Intro||00:00:10'') \<noteq> []"
    by (simp add: trim_def is_white_space_def)
  have b: "find_class ''vjs-icon-placeholder'' 0
       [Element ''span'' [''vjs-icon-placeholder''] [] [] [] []] = Some [0]"
    by simp
  show ?thesis
    using createEl_label_parts [where super_createEl = clickable_createEl
        and localize = german and tag_type = "''li''", OF a clickable_createEl_row b]
      a b clickable_createEl_row
    by (simp add: german_def)
qed

text \<open>C8 as stated fails: for the label \<open>a||b||c\<close> everything after the first \<open>||\<close> is
  \<open>b||c\<close>, and the secondary span that \<open>createEl\<close> renders holds \<open>b\<close>; and the text of the
  secondary span is the localization of the secondary text, which need not be the text itself.\<close>

theorem createEl_label_parts_counterexample:
  "text_after_first_bars ''a||b||c'' = Some ''b||c'' \<and>
   createEl clickable_createEl (\<lambda>s. s) ''a||b||c'' ''li'' [] [] =
     Inr (Element ''li'' [''vjs-menu-item''] [(''tabindex'', ''-1'')] [] []
       [Element ''span'' [''vjs-menu-item-chapter-edit-button''] []
          [(''click'', DispatchOnWindow
              \<lparr>ev_type = ''chapterEditEvent'', ev_data = Some [(''chapter'', ''a'')]\<rparr>),
           (''touchstart'', DispatchOnWindow
              \<lparr>ev_type = ''chapterEditEvent'', ev_data = Some [(''chapter'', ''a'')]\<rparr>)]
          [] [],
        Element ''span'' [''vjs-menu-item-text''] [] [] ''a'' [],
        Element ''span'' [''vjs-menu-item-chapter-starttime''] [] [] ''b'' []]) \<and>
   createEl clickable_createEl spoken_time ''Intro||00:00:10'' ''li'' [] [] =
     Inr (Element ''li'' [''vjs-menu-item''] [(''tabindex'', ''-1'')] [] []
       [Element ''span'' [''vjs-menu-item-chapter-edit-button''] []
          [(''click'', DispatchOnWindow
              \<lparr>ev_type = ''chapterEditEvent'', ev_data = Some [(''chapter'', ''Intro'')]\<rparr>),
           (''touchstart'', DispatchOnWindow
              \<lparr>ev_type = ''chapterEditEvent'', ev_data = Some [(''chapter'', ''Intro'')]\<rparr>)]
          [] [],
        Element ''span'' [''vjs-menu-item-text''] [] [] ''Intro'' [],
        Element ''span'' [''vjs-menu-item-chapter-starttime''] [] [] ''ten seconds'' []])"
proof -
  have a: "trim (hd (split_bars ''a||b||c'')) \<noteq> []"
    by (simp add: trim_def is_white_space_def)
  have a': "trim (hd (split_bars ''Intro||00:00:10'')) \<noteq> []"
    by (simp only: split_bars_intro list.sel trim_intro) simp
  have b: "find_class ''vjs-icon-placeholder'' 0
       [Element ''span'' [''vjs-icon-placeholder''] [] [] [] []] = Some [0]"
    by simp
  have "createEl clickable_createEl spoken_time ''Intro||00:00:10'' ''li'' [] [] =
     Inr (Element ''li'' [''vjs-menu-item''] [(''tabindex'', ''-1'')] [] []
       [Element ''span'' [''vjs-menu-item-chapter-edit-button''] []
          [(''click'', DispatchOnWindow
              \<lparr>ev_type = ''chapterEditEvent'', ev_data = Some [(''chapter'', ''Intro'')]\<rparr>),
           (''touchstart'', DispatchOnWindow
              \<lparr>ev_type = ''chapterEditEvent'', ev_data = Some [(''chapter'', ''Intro'')]\<rparr>)]
          [] [],
        Element ''span'' [''vjs-menu-item-text''] [] [] ''Intro'' [],
        Element ''span'' [''vjs-menu-item-chapter-starttime''] [] [] ''ten seconds'' []])"
    using createEl_row [where super_createEl = clickable_createEl
        and localize = spoken_time and ty = "''li''", OF a' clickable_createEl_row b]
    by (simp add: split_bars_intro at_index_def spoken_time_def)
  then show ?thesis
    using createEl_row [where super_createEl = clickable_createEl
        and localize = "\<lambda>s. s" and ty = "''li''", OF a clickable_createEl_row b]
    by (simp add: at_index_def)
qed

text \<open>C9: when the part of the label before the first \<open>||\<close> is empty or all white space,
  \<open>createEl\<close> returns the element that the base control builds for a hidden row, as it is:
  nothing is prepended, replaced, appended or set on it.\<close>

theorem createEl_blank_name_placeholder:
  assumes "\<forall>c \<in> set (text_before_first_bars label). is_white_space c"
  shows "createEl super_createEl localize label tag_type ps ats =
           Inr (super_createEl ''li'' [(''style'', ''display: none;'')] [])"
proof -
  have "trim (hd (split_bars label)) = []"
    using assms by (simp add: hd_split_bars trim_empty_iff)
  then show ?thesis
    by (rule createEl_blank)
qed

theorem createEl_blank_name_placeholder_witness:
  "list_all is_white_space (text_before_first_bars ''  ||00:00:10'') \<and>
   createEl clickable_createEl german ''  ||00:00:10'' ''li'' [] [] =
     Inr (Element ''li'' [] [(''style'', ''display: none;'')] [] []
            [Element ''span'' [''vjs-icon-placeholder''] [] [] [] []])"
proof -
  have a: "\<forall>c \<in> set (text_before_first_bars ''  ||00:00:10''). is_white_space c"
    by (simp add: is_white_space_def)
  show ?thesis
    using createEl_blank_name_placeholder [OF a, of clickable_createEl german "''li''" "[]" "[]"] a
    by (simp add: clickable_createEl_hidden hidden_row_def list_all_iff)
qed

text \<open>C10: for a name that is not blank, and a base element whose icon placeholder is one of
  its children, the first child of the row is the edit control, and firing a \<open>click\<close> or a
  \<open>touchstart\<close> at it adds exactly one event to those dispatched on the window: the
  \<open>chapterEditEvent\<close> whose payload is \<open>{chapter: primaryText}\<close>.  The event is on the window
  when the listener returns.\<close>

theorem edit_control_dispatches_once:
  assumes "trim (text_before_first_bars label) \<noteq> []"
    and "super_createEl ''li''
           (assign [(''className'', ''vjs-menu-item''), (''tabIndex'', ''-1'')] ps) ats =
         Element tag cl as' ls tx kids"
    and "find_class ''vjs-icon-placeholder'' 0 kids = Some [i]"
  shows "\<exists>btn rest.
           createEl super_createEl localize label tag_type ps ats =
             Inr (Element tag cl as' ls tx (btn # rest)) \<and>
           classList btn = [''vjs-menu-item-chapter-edit-button''] \<and>
           (\<forall>w. fire ''click'' btn w =
                  w @ [\<lparr>ev_type = ''chapterEditEvent'',
                         ev_data = Some [(''chapter'', text_before_first_bars label)]\<rparr>]) \<and>
           (\<forall>w. fire ''touchstart'' btn w =
                  w @ [\<lparr>ev_type = ''chapterEditEvent'',
                         ev_data = Some [(''chapter'', text_before_first_bars label)]\<rparr>])"
proof -
  have nb: "trim (hd (split_bars label)) \<noteq> []"
    using assms(1) by (simp add: hd_split_bars)
  show ?thesis
    using createEl_row [where super_createEl = super_createEl and localize = localize
        and ty = tag_type, OF nb assms(2) assms(3)]
    by (simp add: hd_split_bars fire_def)
qed

theorem edit_control_dispatches_once_witness:
  "trim (text_before_first_bars ''Intro||00:00:10'') \<noteq> [] \<and>
   clickable_createEl ''li''
       (assign [(''className'', ''vjs-menu-item''), (''tabIndex'', ''-1'')] []) [] =
     Element ''li'' [''vjs-menu-item''] [(''tabindex'', ''-1'')] [] []
       [Element ''span'' [''vjs-icon-placeholder''] [] [] [] []] \<and>
   find_class ''vjs-icon-placeholder'' 0
       [Element ''span'' [''vjs-icon-placeholder''] [] [] [] []] = Some [0] \<and>
   createEl clickable_createEl german ''Intro||00:00:10'' ''li'' [] [] = Inr (intro_row []) \<and>
   children (intro_row []) ! 0 = edit_button_intro \<and>
   fire ''click'' edit_button_intro [] =
     [\<lparr>ev_type = ''chapterEditEvent'', ev_data = Some [(''chapter'', ''Intro'')]\<rparr>] \<and>
   fire ''touchstart'' edit_button_intro
       [\<lparr>ev_type = ''chapterEditEvent'', ev_data = Some [(''chapter'', ''Intro'')]\<rparr>] =
     [\<lparr>ev_type = ''chapterEditEvent'', ev_data = Some [(''chapter'', ''Intro'')]\<rparr>,
      \<lparr>ev_type = ''chapterEditEvent'', ev_data = Some [(''chapter'', ''Intro'')]\<rparr>]"
proof -
  have a: "trim (text_before_first_bars ''Intro||00:00:10'') \<noteq> []"
    by (simp add: trim_def is_white_space_def)
  have b: "find_class ''vjs-icon-placeholder'' 0
       [Element ''span'' [''vjs-icon-placeholder''] [] [] [] []] = Some [0]"
    by simp
  have c: "text_before_first_bars ''Intro||00:00:10'' = ''Intro''"
    by simp
  from edit_control_dispatches_once [where super_createEl = clickable_createEl
        and localize = german and tag_type = "''li''", OF a clickable_createEl_row b]
  obtain btn rest where
    "createEl clickable_createEl german ''Intro||00:00:10'' ''li'' [] [] =
       Inr (Element ''li'' [''vjs-menu-item''] [(''tabindex'', ''-1'')] [] [] (btn # rest))"
    and f: "\<forall>w. fire ''click'' btn w =
                  w @ [\<lparr>ev_type = ''chapterEditEvent'', ev_data = Some [(''chapter'', ''Intro'')]\<rparr>]"
      "\<forall>w. fire ''touchstart'' btn w =
                  w @ [\<lparr>ev_type = ''chapterEditEvent'', ev_data = Some [(''chapter'', ''Intro'')]\<rparr>]"
    unfolding c by blast
  then have "btn = edit_button_intro"
    by (simp add: createEl_intro_example intro_row_def)
  with f have "fire ''click'' edit_button_intro [] =
       [] @ [\<lparr>ev_type = ''chapterEditEvent'', ev_data = Some [(''chapter'', ''Intro'')]\<rparr>]"
    and "fire ''touchstart'' edit_button_intro
       [\<lparr>ev_type = ''chapterEditEvent'', ev_data = Some [(''chapter'', ''Intro'')]\<rparr>] =
     [\<lparr>ev_type = ''chapterEditEvent'', ev_data = Some [(''chapter'', ''Intro'')]\<rparr>] @
      [\<lparr>ev_type = ''chapterEditEvent'', ev_data = Some [(''chapter'', ''Intro'')]\<rparr>]"
    by blast+
  then show ?thesis
    using a b clickable_createEl_row createEl_intro_example
    by (simp add: intro_row_def)
qed

end
